theory Spec2Isabelle
  imports Complex_Main
begin

section \<open>JavaScript values, requests and responses\<close>

text \<open>
  The application is \<open>src/app.js\<close> (the middleware chain) and \<open>src/routes/index.js\<close>
  (three GET routes), both written against Express 4 (\<open>"express": "^4.18.2"\<close>).
  The values the two files handle are JavaScript values: the object given to \<open>res.json\<close>,
  the \<open>status\<close> and \<open>message\<close> read from an error. Numbers are kept exact (\<open>real\<close>),
  \<open>NaN\<close> is a value of its own, a \<open>Date\<close> carries its epoch milliseconds, and an object
  literal is the list of its properties in source order.
\<close>

datatype jsval =
    JUndefined
  | JNull
  | JBool bool
  | JNum real
  | JNaN
  | JStr string
  | JDate int
  | JObj "(string \<times> jsval) list"

text \<open>
  JavaScript's ToBoolean, which \<open>a || b\<close> applies to its left operand: \<open>undefined\<close>,
  \<open>null\<close>, \<open>false\<close>, \<open>0\<close>, \<open>NaN\<close> and the empty string are falsy.
\<close>

fun truthy :: "jsval \<Rightarrow> bool" where
  "truthy JUndefined = False"
| "truthy JNull = False"
| "truthy (JBool b) = b"
| "truthy (JNum x) = (x \<noteq> 0)"
| "truthy JNaN = False"
| "truthy (JStr s) = (s \<noteq> [])"
| "truthy (JDate t) = True"
| "truthy (JObj ps) = True"

definition js_or :: "jsval \<Rightarrow> jsval \<Rightarrow> jsval" where
  "js_or a b = (if truthy a then a else b)"

text \<open>
  A response body: the value handed to \<open>res.json\<close>, the text handed to \<open>res.send\<close>, or
  nothing.
\<close>

datatype payload = Json jsval | Text string | Empty

text \<open>
  The error with which a body parser rejects the body of a request. The parsers of
  \<open>app.js\<close> have their default options, so the error is one of: 400 (the body is not
  what its content type says, the request was aborted, its length is wrong), 413 (the
  body or its parameters are too many) and 415 (unsupported charset or content
  encoding), with a message.
\<close>

datatype parser_status = BadRequest | PayloadTooLarge | UnsupportedMediaType

fun status_code :: "parser_status \<Rightarrow> real" where
  "status_code BadRequest = 400"
| "status_code PayloadTooLarge = 413"
| "status_code UnsupportedMediaType = 415"

type_synonym parser_error = "parser_status \<times> string"

text \<open>
  The \<open>If-None-Match\<close> header of a request: absent, \<open>*\<close>, or a list of entity tags.
  Express tags a response body with a hash of it; a tag is taken here to identify the
  body, so that a list of tags is the list of the bodies it names.
\<close>

datatype if_none_match = Absent | Star | Tags "payload list"

text \<open>
  A request, as far as the application and the middleware of \<open>app.js\<close> read it: the
  method, the pathname of the URL (\<open>req.path\<close>, the query string already cut off),
  \<open>req.params\<close>, which the router fills in when a route matches, the verdict of each of
  the two body parsers on its body (\<open>None\<close> when the parser accepts the body or has
  nothing to parse), and the headers that \<open>res.send\<close> reads to decide whether the
  client's copy is fresh: \<open>If-None-Match\<close>, whether \<open>If-Modified-Since\<close> is present, and
  whether \<open>Cache-Control\<close> says \<open>no-cache\<close>.
\<close>

record request =
  "method" :: string
  path :: string
  params :: "(string \<times> string) list"
  json_error :: "parser_error option"
  urlencoded_error :: "parser_error option"
  if_none_match :: if_none_match
  if_modified_since :: bool
  no_cache :: bool

text \<open>
  The Node process, as far as the code reads it: the monotonic clock behind
  \<open>process.uptime()\<close>, in nanoseconds since the process started, the wall clock behind
  \<open>new Date()\<close>, in milliseconds since the epoch, and two conversions of the JavaScript
  runtime that are left open here: the number a string converts to (\<open>None\<close> for \<open>NaN\<close>
  and the infinities) and the text of a value in an error message.
\<close>

record process =
  hrtime :: nat
  wallclock :: int
  string_number :: "string \<Rightarrow> real option"
  value_text :: "jsval \<Rightarrow> string"

definition process_uptime :: "process \<Rightarrow> real" where
  "process_uptime p = real (hrtime p) / 10 ^ 9"

text \<open>An error object, as the error handler reads it: \<open>err.status\<close> and \<open>err.message\<close>.\<close>

record fault =
  status :: jsval
  message :: jsval

text \<open>
  \<open>res\<close> is the response object while a handler works on it; Node starts it with status
  200, and \<open>res.status(code)\<close> of Express 4 stores the value it is given. A \<open>response\<close>
  is what has been sent: the status code Node wrote and the body. (For a HEAD request
  Express builds the same response and leaves the body off the wire, and so does Node
  under a status from 100 to 199, 204 or 304; the body here is what \<open>res.send\<close> made of
  the value the handler handed over.)
\<close>

record res =
  statusCode :: jsval

record response = res +
  body :: payload

text \<open>
  What a middleware function or a route handler does with a request: it sends the
  response, it calls \<open>next()\<close>, or it throws (or calls \<open>next(err)\<close>).
\<close>

datatype outcome = Sent response | CallNext | Throw fault

type_synonym handler = "request \<Rightarrow> process \<Rightarrow> res \<Rightarrow> outcome"

type_synonym error_handler = "fault \<Rightarrow> request \<Rightarrow> process \<Rightarrow> res \<Rightarrow> outcome"

subsection \<open>Sending a response\<close>

text \<open>
  JavaScript's ToNumber (\<open>None\<close> stands for \<open>NaN\<close> and for the infinities, which behave
  alike wherever a status is read) and ToInt32, which is what \<open>statusCode |= 0\<close> computes.
\<close>

fun to_number :: "process \<Rightarrow> jsval \<Rightarrow> real option" where
  "to_number p JUndefined = None"
| "to_number p JNull = Some 0"
| "to_number p (JBool b) = Some (if b then 1 else 0)"
| "to_number p (JNum x) = Some x"
| "to_number p JNaN = None"
| "to_number p (JStr s) = string_number p s"
| "to_number p (JDate t) = Some (of_int t)"
| "to_number p (JObj ps) = None"

definition to_int32 :: "real option \<Rightarrow> int" where
  "to_int32 x =
     (case x of
        None \<Rightarrow> 0
      | Some v \<Rightarrow>
          (let n = (if 0 \<le> v then \<lfloor>v\<rfloor> else \<lceil>v\<rceil>);
               m = n mod 2 ^ 32
           in if 2 ^ 31 \<le> m then m - 2 ^ 32 else m))"

text \<open>
  The \<open>fresh\<close> module (0.5.2), on the headers of the request and a response that has an
  \<open>ETag\<close> and no \<open>Last-Modified\<close>, as every response of \<open>res.send\<close> here:
  \<^verbatim>\<open>
  function fresh (reqHeaders, resHeaders) {
    var modifiedSince = reqHeaders['if-modified-since']
    var noneMatch = reqHeaders['if-none-match']
    if (!modifiedSince && !noneMatch) { return false }
    var cacheControl = reqHeaders['cache-control']
    if (cacheControl && CACHE_CONTROL_NO_CACHE_REGEXP.test(cacheControl)) { return false }
    if (noneMatch && noneMatch !== '*') {
      var etag = resHeaders['etag']
      if (!etag) { return false }
      var etagStale = true
      var matches = parseTokenList(noneMatch)
      for (var i = 0; i < matches.length; i++) {
        var match = matches[i]
        if (match === etag || match === 'W/' + etag || 'W/' + match === etag) {
          etagStale = false
          break
        }
      }
      if (etagStale) { return false }
    }
    if (modifiedSince) {
      var lastModified = resHeaders['last-modified']
      var modifiedStale = !lastModified || !(parseHttpDate(lastModified) <= parseHttpDate(modifiedSince))
      if (modifiedStale) { return false }
    }
    return true
  }
  \<close>
\<close>

definition fresh :: "request \<Rightarrow> payload \<Rightarrow> bool" where
  "fresh rq chunk =
     (if \<not> if_modified_since rq \<and> if_none_match rq = Absent then False
      else if no_cache rq then False
      else if (case if_none_match rq of Tags ts \<Rightarrow> chunk \<notin> set ts | _ \<Rightarrow> False) then False
      else if if_modified_since rq then False
      else True)"

text \<open>
  The getter \<open>req.fresh\<close> of Express:
  \<^verbatim>\<open>
  var method = this.method; var res = this.res; var status = res.statusCode
  if ('GET' !== method && 'HEAD' !== method) return false;
  if ((status >= 200 && status < 300) || 304 === status) {
    return fresh(this.headers, { 'etag': res.get('ETag'), 'last-modified': res.get('Last-Modified') })
  }
  return false;
  \<close>
\<close>

definition req_fresh :: "request \<Rightarrow> process \<Rightarrow> res \<Rightarrow> payload \<Rightarrow> bool" where
  "req_fresh rq p r chunk =
     (if method rq \<noteq> ''GET'' \<and> method rq \<noteq> ''HEAD'' then False
      else if (case to_number p (statusCode r) of
                 None \<Rightarrow> False
               | Some x \<Rightarrow> 200 \<le> x \<and> x < 300) \<or> statusCode r = JNum 304
      then fresh rq chunk
      else False)"

definition res_status :: "jsval \<Rightarrow> res \<Rightarrow> res" where
  "res_status c r = r\<lparr>statusCode := c\<rparr>"

text \<open>
  \<open>res.send\<close> of Express 4.18, and under it \<open>writeHead\<close> of Node, which \<open>res.end\<close> calls:
  \<^verbatim>\<open>
  // freshness
  if (req.fresh) this.statusCode = 304;
  // strip irrelevant headers
  if (204 === this.statusCode || 304 === this.statusCode) { ...; chunk = ''; }
  // alter headers for 205
  if (this.statusCode === 205) { ...; chunk = ''; }
  if (req.method === 'HEAD') { this.end(); } else { this.end(chunk, encoding); }
  \<close>
  \<^verbatim>\<open>
  statusCode |= 0;
  if (statusCode < 100 || statusCode > 999) {
    throw new ERR_HTTP_INVALID_STATUS_CODE(originalStatusCode);
  }
  \<close>
  The error that Node throws is a RangeError with the message
  \<open>Invalid status code: <value>\<close> and no \<open>status\<close>.
\<close>

definition res_send :: "request \<Rightarrow> process \<Rightarrow> payload \<Rightarrow> res \<Rightarrow> outcome" where
  "res_send rq p chunk r =
     (let sc = (if req_fresh rq p r chunk then JNum 304 else statusCode r);
          chunk' = (if sc = JNum 204 \<or> sc = JNum 304 \<or> sc = JNum 205 then Empty else chunk);
          n = to_int32 (to_number p sc)
      in if n < 100 \<or> 999 < n
         then Throw \<lparr>status = JUndefined,
                     message = JStr (''Invalid status code: '' @ value_text p sc)\<rparr>
         else Sent \<lparr>statusCode = JNum (of_int n), body = chunk'\<rparr>)"

text \<open>\<open>res.json(obj)\<close> sets the content type and sends the JSON text of the object.\<close>

definition res_json :: "request \<Rightarrow> process \<Rightarrow> jsval \<Rightarrow> res \<Rightarrow> outcome" where
  "res_json rq p v r = res_send rq p (Json v) r"

section \<open>Express 4 routing\<close>

subsection \<open>Decoding a path parameter\<close>

text \<open>
  \<open>decodeURIComponent\<close> reads the string left to right: \<open>%XY\<close> with two hex digits is
  one octet, any other character stands for itself, and a \<open>%\<close> without two hex digits is
  a URIError. The octets at or above 128 must form well-formed UTF-8 sequences, otherwise
  the call is a URIError too. The decoded text is kept here in UTF-8, which leaves an
  ASCII result such as \<open>123\<close> as it is.
\<close>

definition hex_digit :: "char \<Rightarrow> nat option" where
  "hex_digit c =
     (let n = (of_char c :: nat) in
      if 48 \<le> n \<and> n \<le> 57 then Some (n - 48)
      else if 65 \<le> n \<and> n \<le> 70 then Some (n - 55)
      else if 97 \<le> n \<and> n \<le> 102 then Some (n - 87)
      else None)"

datatype piece = Raw char | Octet nat

fun pieces :: "string \<Rightarrow> piece list option" where
  "pieces [] = Some []"
| "pieces (c # cs) =
     (if c \<noteq> CHR ''%'' then map_option ((#) (Raw c)) (pieces cs)
      else (case cs of
              a # b # rest \<Rightarrow>
                (case (hex_digit a, hex_digit b) of
                   (Some h, Some l) \<Rightarrow> map_option ((#) (Octet (16 * h + l))) (pieces rest)
                 | _ \<Rightarrow> None)
            | _ \<Rightarrow> None))"

text \<open>
  The ranges of the octets that must follow a leading octet (the table of well-formed
  UTF-8 sequences); \<open>None\<close> for an octet that cannot lead.
\<close>

definition utf8_lead :: "nat \<Rightarrow> (nat \<times> nat) list option" where
  "utf8_lead b =
     (if b < 0x80 then Some []
      else if 0xC2 \<le> b \<and> b \<le> 0xDF then Some [(0x80, 0xBF)]
      else if b = 0xE0 then Some [(0xA0, 0xBF), (0x80, 0xBF)]
      else if b = 0xED then Some [(0x80, 0x9F), (0x80, 0xBF)]
      else if 0xE1 \<le> b \<and> b \<le> 0xEF then Some [(0x80, 0xBF), (0x80, 0xBF)]
      else if b = 0xF0 then Some [(0x90, 0xBF), (0x80, 0xBF), (0x80, 0xBF)]
      else if 0xF1 \<le> b \<and> b \<le> 0xF3 then Some [(0x80, 0xBF), (0x80, 0xBF), (0x80, 0xBF)]
      else if b = 0xF4 then Some [(0x80, 0x8F), (0x80, 0xBF), (0x80, 0xBF)]
      else None)"

fun utf8 :: "(nat \<times> nat) list \<Rightarrow> piece list \<Rightarrow> string option" where
  "utf8 [] [] = Some []"
| "utf8 (r # rs) [] = None"
| "utf8 [] (Raw c # ps) = map_option ((#) c) (utf8 [] ps)"
| "utf8 (r # rs) (Raw c # ps) = None"
| "utf8 [] (Octet b # ps) =
     (case utf8_lead b of
        None \<Rightarrow> None
      | Some rs \<Rightarrow> map_option ((#) (char_of b)) (utf8 rs ps))"
| "utf8 ((lo, hi) # rs) (Octet b # ps) =
     (if lo \<le> b \<and> b \<le> hi then map_option ((#) (char_of b)) (utf8 rs ps) else None)"

definition decodeURIComponent :: "string \<Rightarrow> string option" where
  "decodeURIComponent s = (case pieces s of None \<Rightarrow> None | Some ps \<Rightarrow> utf8 [] ps)"

text \<open>
  \<open>decode_param\<close> of \<open>express/lib/router/layer.js\<close>: an empty value is returned as it
  is; a URIError is rethrown with the message \<open>Failed to decode param '<value>'\<close> and
  \<open>err.status = 400\<close>.
  \<^verbatim>\<open>
  function decode_param(val) {
    if (typeof val !== 'string' || val.length === 0) { return val; }
    try {
      return decodeURIComponent(val);
    } catch (err) {
      if (err instanceof URIError) {
        err.message = 'Failed to decode param \'' + val + '\'';
        err.status = err.statusCode = 400;
      }
      throw err;
    }
  }
  \<close>
\<close>

definition decode_param :: "string \<Rightarrow> fault + string" where
  "decode_param val =
     (if val = [] then Inr val
      else (case decodeURIComponent val of
              Some s \<Rightarrow> Inr s
            | None \<Rightarrow>
                Inl \<lparr>status = JNum 400,
                     message = JStr (''Failed to decode param '' @ [CHR 0x27] @ val @ [CHR 0x27])\<rparr>))"

fun decode_params :: "(string \<times> string) list \<Rightarrow> fault + (string \<times> string) list" where
  "decode_params [] = Inr []"
| "decode_params ((k, v) # kvs) =
     (case decode_param v of
        Inl e \<Rightarrow> Inl e
      | Inr s \<Rightarrow> (case decode_params kvs of Inl e \<Rightarrow> Inl e | Inr rest \<Rightarrow> Inr ((k, s) # rest)))"

subsection \<open>Matching a path against a route pattern\<close>

text \<open>
  Express compiles a route path with its default options (routing is not case
  sensitive and not strict): \<open>/api/users/:id\<close> becomes the regular expression
  \<open>^\/api\/users\/(?:([^\/]+?))\/?$\<close> with flag \<open>i\<close>, and \<open>/\<close> becomes \<open>^\/?$\<close>.
  For patterns made of literal segments and \<open>:name\<close> segments this is a match segment by
  segment: the path starts with a slash, may end with one more slash, a literal
  segment is compared without regard to ASCII case, and a parameter segment takes one
  non-empty segment.
\<close>

fun split_slash :: "string \<Rightarrow> string list" where
  "split_slash [] = [[]]"
| "split_slash (c # cs) =
     (if c = CHR ''/'' then [] # split_slash cs
      else (case split_slash cs of
              [] \<Rightarrow> [[c]]
            | s # ss \<Rightarrow> (c # s) # ss))"

definition drop_trailing_slash :: "string list \<Rightarrow> string list" where
  "drop_trailing_slash ss = (if ss \<noteq> [] \<and> last ss = [] then butlast ss else ss)"

datatype seg = Lit string | Param string

definition seg_of :: "string \<Rightarrow> seg" where
  "seg_of s = (case s of [] \<Rightarrow> Lit s | c # name \<Rightarrow> if c = CHR '':'' then Param name else Lit s)"

definition pathRegexp :: "string \<Rightarrow> seg list" where
  "pathRegexp pat =
     (case split_slash pat of
        [] \<Rightarrow> []
      | s # ss \<Rightarrow> map seg_of (drop_trailing_slash (if s = [] then ss else s # ss)))"

definition lower_char :: "char \<Rightarrow> char" where
  "lower_char c =
     (let n = (of_char c :: nat) in if 65 \<le> n \<and> n \<le> 90 then char_of (n + 32) else c)"

definition upper_char :: "char \<Rightarrow> char" where
  "upper_char c =
     (let n = (of_char c :: nat) in if 97 \<le> n \<and> n \<le> 122 then char_of (n - 32) else c)"

definition toLowerCase :: "string \<Rightarrow> string" where
  "toLowerCase s = map lower_char s"

definition toUpperCase :: "string \<Rightarrow> string" where
  "toUpperCase s = map upper_char s"

fun match_segments :: "seg list \<Rightarrow> string list \<Rightarrow> (string \<times> string) list option" where
  "match_segments [] [] = Some []"
| "match_segments (Lit l # ps) (s # ss) =
     (if toLowerCase l = toLowerCase s then match_segments ps ss else None)"
| "match_segments (Param k # ps) (s # ss) =
     (if s = [] then None else map_option ((#) (k, s)) (match_segments ps ss))"
| "match_segments _ _ = None"

definition regexp_exec :: "seg list \<Rightarrow> string \<Rightarrow> (string \<times> string) list option" where
  "regexp_exec segs p =
     (case split_slash p of
        [] \<Rightarrow> None
      | s # ss \<Rightarrow> if s = [] then match_segments segs (drop_trailing_slash ss) else None)"

text \<open>
  \<open>Layer.prototype.match\<close>: no match, a match with the decoded parameters, or the
  error thrown by \<open>decode_param\<close>, which the router holds as \<open>layerError\<close>.
  \<^verbatim>\<open>
  match = this.regexp.exec(path)
  if (!match) { this.params = undefined; this.path = undefined; return false; }
  ...
  for (var i = 1; i < match.length; i++) {
    var key = keys[i - 1];
    var prop = key.name;
    var val = decode_param(match[i])
    if (val !== undefined || !(hasOwnProperty.call(params, prop))) { params[prop] = val; }
  }
  return true;
  \<close>
\<close>

datatype match = NoMatch | Matched "(string \<times> string) list" | MatchError fault

definition layer_match :: "string \<Rightarrow> string \<Rightarrow> match" where
  "layer_match pat p =
     (case regexp_exec (pathRegexp pat) p of
        None \<Rightarrow> NoMatch
      | Some caps \<Rightarrow> (case decode_params caps of Inl e \<Rightarrow> MatchError e | Inr ps \<Rightarrow> Matched ps))"

subsection \<open>Routes and the router\<close>

text \<open>
  A route is a path and a stack of handlers, each registered under a lower-case method
  name; \<open>router.get(path, fn)\<close> makes a route with one handler under \<open>get\<close>.
\<close>

record route =
  route_path :: string
  stack :: "(string \<times> handler) list"

definition router_get :: "string \<Rightarrow> handler \<Rightarrow> route" where
  "router_get p h = \<lparr>route_path = p, stack = [(''get'', h)]\<rparr>"

definition route_methods :: "route \<Rightarrow> string list" where
  "route_methods rt = remdups (map fst (stack rt))"

text \<open>
  \<open>Route.prototype.dispatch\<close> and \<open>_handles_method\<close> look a HEAD request up under
  \<open>get\<close> when the route has no handler of its own for \<open>head\<close>.
  \<^verbatim>\<open>
  Route.prototype._handles_method = function _handles_method(method) {
    if (this._all) { return true; }
    var name = typeof method === 'string' ? method.toLowerCase() : method
    if (name === 'head' && !this.methods['head']) { name = 'get'; }
    return Boolean(this.methods[name]);
  };
  \<close>
\<close>

definition dispatch_method :: "route \<Rightarrow> string \<Rightarrow> string" where
  "dispatch_method rt m =
     (let name = toLowerCase m in
      if name = ''head'' \<and> \<not> List.member (route_methods rt) ''head'' then ''get'' else name)"

definition handles_method :: "route \<Rightarrow> string \<Rightarrow> bool" where
  "handles_method rt m = List.member (route_methods rt) (dispatch_method rt m)"

text \<open>\<open>Route.prototype._options\<close>: the methods of the route, with the automatic HEAD.\<close>

definition route_options :: "route \<Rightarrow> string list" where
  "route_options rt =
     (let ms = route_methods rt in
      map toUpperCase
        (if List.member ms ''get'' \<and> \<not> List.member ms ''head'' then ms @ [''head''] else ms))"

fun appendMethods :: "string list \<Rightarrow> string list \<Rightarrow> string list" where
  "appendMethods list [] = list"
| "appendMethods list (m # ms) =
     appendMethods (if List.member list m then list else list @ [m]) ms"

fun route_dispatch :: "(string \<times> handler) list \<Rightarrow> string \<Rightarrow> handler" where
  "route_dispatch [] m rq p r = CallNext"
| "route_dispatch ((lm, h) # ls) m rq p r =
     (if lm \<noteq> m then route_dispatch ls m rq p r
      else (case h rq p r of
              Sent x \<Rightarrow> Sent x
            | CallNext \<Rightarrow> route_dispatch ls m rq p r
            | Throw e \<Rightarrow> Throw e))"

text \<open>
  The loop of \<open>Router.prototype.handle\<close> over the routes of a router. A layer whose
  path does not match is passed over; an error thrown while matching is held in
  \<open>layerError\<close>, and no route matches while an error is pending. A route whose path
  matches but that does not handle the method is passed over too (for an OPTIONS
  request its methods are collected first); otherwise \<open>req.params\<close> is set and the route
  is dispatched. The result is what the router did, with the methods collected.
  \<^verbatim>\<open>
  while (match !== true && idx < stack.length) {
    layer = stack[idx++];
    match = matchLayer(layer, path);      // true, false, or the error thrown
    route = layer.route;
    if (typeof match !== 'boolean') { layerError = layerError || match; }
    if (match !== true) { continue; }
    if (!route) { continue; }
    if (layerError) { match = false; continue; }
    var method = req.method;
    var has_method = route._handles_method(method);
    if (!has_method && method === 'OPTIONS') { appendMethods(options, route._options()); }
    if (!has_method && method !== 'HEAD') { match = false; continue; }
  }
  if (match !== true) { return done(layerError); }
  \<close>
\<close>

fun router_next ::
  "route list \<Rightarrow> fault option \<Rightarrow> string list \<Rightarrow> request \<Rightarrow> process \<Rightarrow> res \<Rightarrow> outcome \<times> string list"
where
  "router_next [] layerError options rq p r =
     ((case layerError of None \<Rightarrow> CallNext | Some e \<Rightarrow> Throw e), options)"
| "router_next (rt # rts) layerError options rq p r =
     (case layer_match (route_path rt) (path rq) of
        NoMatch \<Rightarrow> router_next rts layerError options rq p r
      | MatchError e \<Rightarrow>
          router_next rts (Some (case layerError of None \<Rightarrow> e | Some e0 \<Rightarrow> e0)) options rq p r
      | Matched ps \<Rightarrow>
          (if layerError \<noteq> None then router_next rts layerError options rq p r
           else
             let has_method = handles_method rt (method rq);
                 options' =
                   (if \<not> has_method \<and> method rq = ''OPTIONS''
                    then appendMethods options (route_options rt) else options)
             in if \<not> has_method \<and> method rq \<noteq> ''HEAD''
                then router_next rts layerError options' rq p r
                else (case route_dispatch (stack rt) (dispatch_method rt (method rq))
                             (rq\<lparr>params := ps\<rparr>) p r of
                        Sent x \<Rightarrow> (Sent x, options')
                      | CallNext \<Rightarrow> router_next rts None options' rq p r
                      | Throw e \<Rightarrow> router_next rts (Some e) options' rq p r)))"

fun join_comma :: "string list \<Rightarrow> string" where
  "join_comma [] = []"
| "join_comma [m] = m"
| "join_comma (m # ms) = m @ '','' @ join_comma ms"

text \<open>
  \<open>sendOptionsResponse\<close>: the router's own answer to an OPTIONS request, the collected
  methods joined by commas, as text (and in the \<open>Allow\<close> header), with the status left
  as it is.
\<close>

definition sendOptionsResponse :: "string list \<Rightarrow> handler" where
  "sendOptionsResponse options rq p r = res_send rq p (Text (join_comma options)) r"

text \<open>
  \<open>Router.prototype.handle\<close>: when the loop ends without a response, a pending error
  goes to the caller's \<open>next(err)\<close>; an OPTIONS request for which methods were
  collected is answered by the router itself; anything else goes to the caller's
  \<open>next()\<close>.
  \<^verbatim>\<open>
  // for options requests, respond with a default if nothing else responds
  if (req.method === 'OPTIONS') {
    done = wrap(done, function(old, err) {
      if (err || options.length === 0) return old(err);
      sendOptionsResponse(res, options, old);
    });
  }
  ...
  function sendOptionsResponse(res, options, next) {
    try {
      var body = options.join(',');
      res.set('Allow', body);
      res.send(body);
    } catch (err) { next(err); }
  }
  \<close>
\<close>

definition router_handle :: "route list \<Rightarrow> handler" where
  "router_handle rts rq p r =
     (case router_next rts None [] rq p r of
        (Sent x, options) \<Rightarrow> Sent x
      | (Throw e, options) \<Rightarrow> Throw e
      | (CallNext, options) \<Rightarrow>
          if method rq = ''OPTIONS'' \<and> options \<noteq> [] then sendOptionsResponse options rq p r
          else CallNext)"

subsection \<open>The application's middleware chain\<close>

text \<open>
  \<open>app.use(fn)\<close> adds a layer. A function of four arguments is an error handler: it
  runs only while an error is pending, and the other layers are passed over while one
  is. What a layer throws becomes the pending error. When the stack is exhausted the
  request leaves the application for Express's \<open>finalhandler\<close>.
  \<^verbatim>\<open>
  Layer.prototype.handle_error = function handle_error(error, req, res, next) {
    var fn = this.handle;
    if (fn.length !== 4) { return next(error); }     // not a standard error handler
    try { fn(error, req, res, next); } catch (err) { next(err); }
  };
  Layer.prototype.handle_request = function handle(req, res, next) {
    var fn = this.handle;
    if (fn.length > 3) { return next(); }            // not a standard request handler
    try { fn(req, res, next); } catch (err) { next(err); }
  };
  \<close>
\<close>

datatype layer = Use handler | UseError error_handler

datatype result = Responded response | Finalhandler "fault option"

fun app_next :: "layer list \<Rightarrow> fault option \<Rightarrow> request \<Rightarrow> process \<Rightarrow> res \<Rightarrow> result" where
  "app_next [] err rq p r = Finalhandler err"
| "app_next (Use f # ls) None rq p r =
     (case f rq p r of
        Sent x \<Rightarrow> Responded x
      | CallNext \<Rightarrow> app_next ls None rq p r
      | Throw e \<Rightarrow> app_next ls (Some e) rq p r)"
| "app_next (Use f # ls) (Some err) rq p r = app_next ls (Some err) rq p r"
| "app_next (UseError f # ls) None rq p r = app_next ls None rq p r"
| "app_next (UseError f # ls) (Some err) rq p r =
     (case f err rq p r of
        Sent x \<Rightarrow> Responded x
      | CallNext \<Rightarrow> app_next ls None rq p r
      | Throw e \<Rightarrow> app_next ls (Some e) rq p r)"

text \<open>
  The three library middlewares of \<open>app.js\<close>. A body parser calls \<open>next()\<close> when it has
  nothing to parse or has parsed the body, and \<open>next(err)\<close> with an error made by
  \<open>http-errors\<close> when it rejects the body. The repository has no \<open>public\<close> directory, so
  \<open>express.static\<close> finds no file and, with its default \<open>fallthrough\<close>, calls \<open>next()\<close>.
\<close>

definition parser_fault :: "parser_error \<Rightarrow> fault" where
  "parser_fault e = \<lparr>status = JNum (status_code (fst e)), message = JStr (snd e)\<rparr>"

definition express_json :: handler where
  "express_json rq p r =
     (case json_error rq of None \<Rightarrow> CallNext | Some e \<Rightarrow> Throw (parser_fault e))"

definition express_urlencoded :: handler where
  "express_urlencoded rq p r =
     (case urlencoded_error rq of None \<Rightarrow> CallNext | Some e \<Rightarrow> Throw (parser_fault e))"

definition express_static :: handler where
  "express_static rq p r = CallNext"

section \<open>The application\<close>

subsection \<open>src/routes/index.js\<close>

definition home_handler :: handler where
  "home_handler rq p r = res_json rq p (JObj [(''message'', JStr ''Welcome to our API!'')]) r"

definition health_handler :: handler where
  "health_handler rq p r =
     res_json rq p
       (JObj [(''status'', JStr ''ok''),
              (''timestamp'', JDate (wallclock p)),
              (''uptime'', JNum (process_uptime p))]) r"

text \<open>\<open>req.params.id\<close>: the property, or \<open>undefined\<close> when there is none.\<close>

definition param :: "request \<Rightarrow> string \<Rightarrow> jsval" where
  "param rq k = (case map_of (params rq) k of None \<Rightarrow> JUndefined | Some v \<Rightarrow> JStr v)"

definition user_handler :: handler where
  "user_handler rq p r =
     (let userId = param rq ''id'' in
      if userId = JStr ''123''
      then res_json rq p
             (JObj [(''id'', JStr ''123''),
                    (''name'', JStr ''John Doe''),
                    (''email'', JStr ''john@example.com'')]) r
      else res_json rq p (JObj [(''error'', JObj [(''message'', JStr ''User not found'')])])
             (res_status (JNum 404) r))"

definition routes :: "route list" where
  "routes =
     [router_get ''/'' home_handler,
      router_get ''/api/health'' health_handler,
      router_get ''/api/users/:id'' user_handler]"

subsection \<open>src/app.js\<close>

definition error_handler :: error_handler where
  "error_handler err rq p r =
     res_json rq p (JObj [(''error'', JObj [(''message'', message err)])])
       (res_status (js_or (status err) (JNum 500)) r)"

definition not_found_handler :: handler where
  "not_found_handler rq p r =
     res_json rq p (JObj [(''error'', JObj [(''message'', JStr ''Not Found'')])])
       (res_status (JNum 404) r)"

text \<open>The response object as Node creates it for a request.\<close>

definition res0 :: res where
  "res0 = \<lparr>statusCode = JNum 200\<rparr>"

text \<open>
  The chain of \<open>app.js\<close> in the order of its \<open>app.use\<close> calls, over any router mounted
  at \<open>/\<close> (a mount path that every request path matches), and the application itself.
\<close>

definition express_app :: "route list \<Rightarrow> process \<Rightarrow> request \<Rightarrow> result" where
  "express_app router p rq =
     app_next
       [Use express_json,
        Use express_urlencoded,
        Use express_static,
        Use (router_handle router),
        UseError error_handler,
        Use not_found_handler]
       None rq p res0"

definition app :: "process \<Rightarrow> request \<Rightarrow> result" where
  "app = express_app routes"

section \<open>Notions used to state the properties\<close>

text \<open>The fixed responses of the application, and the answer to a fresh client.\<close>

definition not_found :: response where
  "not_found =
     \<lparr>statusCode = JNum 404,
      body = Json (JObj [(''error'', JObj [(''message'', JStr ''Not Found'')])])\<rparr>"

definition user_not_found :: response where
  "user_not_found =
     \<lparr>statusCode = JNum 404,
      body = Json (JObj [(''error'', JObj [(''message'', JStr ''User not found'')])])\<rparr>"

definition user_record :: response where
  "user_record =
     \<lparr>statusCode = JNum 200,
      body = Json (JObj [(''id'', JStr ''123''),
                         (''name'', JStr ''John Doe''),
                         (''email'', JStr ''john@example.com'')])\<rparr>"

definition not_modified :: response where
  "not_modified = \<lparr>statusCode = JNum 304, body = Empty\<rparr>"

text \<open>
  A GET or HEAD request is conditional on a body when its cache headers make the
  client's copy of that body fresh; \<open>res.send\<close> then answers 304 in place of a 2xx.
\<close>

definition conditional :: "request \<Rightarrow> payload \<Rightarrow> bool" where
  "conditional rq chunk = ((method rq = ''GET'' \<or> method rq = ''HEAD'') \<and> fresh rq chunk)"

definition has_tags :: "request \<Rightarrow> bool" where
  "has_tags rq = (case if_none_match rq of Tags ts \<Rightarrow> True | _ \<Rightarrow> False)"

text \<open>The error with which the body parsers reject the request, if they do.\<close>

definition rejection :: "request \<Rightarrow> parser_error option" where
  "rejection rq = (case json_error rq of Some e \<Rightarrow> Some e | None \<Rightarrow> urlencoded_error rq)"

definition accepted :: "request \<Rightarrow> bool" where
  "accepted rq = (rejection rq = None)"

text \<open>
  The error that is pending when the chain of \<open>app.js\<close> reaches the error handler: the
  one thrown by the first of the four layers before it that throws.
\<close>

definition pending_fault :: "route list \<Rightarrow> process \<Rightarrow> request \<Rightarrow> fault option" where
  "pending_fault router p rq =
     (case rejection rq of
        Some e \<Rightarrow> Some (parser_fault e)
      | None \<Rightarrow> (case router_handle router rq p res0 of Throw f \<Rightarrow> Some f | _ \<Rightarrow> None))"

text \<open>The methods a route made by \<open>router.get\<close> serves: GET, and HEAD through GET.\<close>

definition get_or_head :: "string \<Rightarrow> bool" where
  "get_or_head m = (toLowerCase m = ''get'' \<or> toLowerCase m = ''head'')"

text \<open>
  A request matches a route when the route's path matches with decoded parameters and the
  route handles the method; its path alone matches when \<open>Layer.match\<close> does not answer
  \<open>false\<close>; a parameter is undecodable when \<open>Layer.match\<close> throws.
\<close>

definition route_matches :: "route \<Rightarrow> request \<Rightarrow> bool" where
  "route_matches rt rq =
     (case layer_match (route_path rt) (path rq) of
        Matched ps \<Rightarrow> handles_method rt (method rq)
      | _ \<Rightarrow> False)"

definition path_matches :: "route \<Rightarrow> request \<Rightarrow> bool" where
  "path_matches rt rq = (layer_match (route_path rt) (path rq) \<noteq> NoMatch)"

definition undecodable :: "route \<Rightarrow> request \<Rightarrow> bool" where
  "undecodable rt rq =
     (case layer_match (route_path rt) (path rq) of MatchError e \<Rightarrow> True | _ \<Rightarrow> False)"

definition matches_route :: "request \<Rightarrow> bool" where
  "matches_route rq = list_ex (\<lambda>rt. route_matches rt rq) routes"

definition matches_path :: "request \<Rightarrow> bool" where
  "matches_path rq = list_ex (\<lambda>rt. path_matches rt rq) routes"

definition undecodable_param :: "request \<Rightarrow> bool" where
  "undecodable_param rq = list_ex (\<lambda>rt. undecodable rt rq) routes"

text \<open>
  Fixtures: a request with the given method and path, no body and no cache headers; a
  process with the given clocks (its conversions are never consulted where no status is
  a string and no status is refused); a handler that does nothing but throw.
\<close>

definition plain :: "string \<Rightarrow> string \<Rightarrow> request" where
  "plain m pa =
     \<lparr>method = m, path = pa, params = [], json_error = None, urlencoded_error = None,
      if_none_match = Absent, if_modified_since = False, no_cache = False\<rparr>"

definition clocks :: "nat \<Rightarrow> int \<Rightarrow> process" where
  "clocks t w =
     \<lparr>hrtime = t, wallclock = w, string_number = (\<lambda>s. None), value_text = (\<lambda>v. [])\<rparr>"

definition throwing :: "fault \<Rightarrow> handler" where
  "throwing f rq p r = Throw f"










text \<open>A response without the two properties that read the clocks.\<close>

fun erase_clock :: "result \<Rightarrow> result" where
  "erase_clock (Responded x) =
     Responded
       (case body x of
          Json (JObj ps) \<Rightarrow>
            x\<lparr>body := Json (JObj (filter (\<lambda>kv. fst kv \<noteq> ''timestamp'' \<and> fst kv \<noteq> ''uptime'') ps))\<rparr>
        | _ \<Rightarrow> x)"
| "erase_clock (Finalhandler e) = Finalhandler e"




section \<open>Sending: the statuses the application uses\<close>

lemma to_int32_of_int:
  assumes "0 \<le> n" and "n < 2 ^ 31"
  shows "to_int32 (Some (of_int n)) = n"
proof -
  from assms have "n mod 2 ^ 32 = n" by simp
  with assms show ?thesis by (simp add: to_int32_def Let_def)
qed

text \<open>A status from 300 to 999 other than 304 is written as it is, with the body.\<close>

lemma res_send_plain:
  assumes "300 \<le> n" and "n \<le> 999" and "n \<noteq> 304"
  shows "res_send rq p chunk \<lparr>statusCode = JNum (of_int n)\<rparr> =
     Sent \<lparr>statusCode = JNum (of_int n), body = chunk\<rparr>"
proof -
  from assms have nf: "\<not> req_fresh rq p \<lparr>statusCode = JNum (of_int n)\<rparr> chunk"
    by (simp add: req_fresh_def)
  from assms have i: "to_int32 (Some (of_int n)) = n"
    by (intro to_int32_of_int) simp_all
  from assms have "real_of_int n \<noteq> 204" and "real_of_int n \<noteq> 205" and "real_of_int n \<noteq> 304"
    by (simp_all add: of_int_eq_iff [of n 204, simplified] of_int_eq_iff [of n 205, simplified]
        of_int_eq_iff [of n 304, simplified])
  with nf i assms show ?thesis
    by (simp add: res_send_def Let_def)
qed

lemma res_send_404:
  "res_send rq p chunk \<lparr>statusCode = JNum 404\<rparr> = Sent \<lparr>statusCode = JNum 404, body = chunk\<rparr>"
  using res_send_plain [of 404 rq p chunk] by simp

lemma res_send_400:
  "res_send rq p chunk \<lparr>statusCode = JNum 400\<rparr> = Sent \<lparr>statusCode = JNum 400, body = chunk\<rparr>"
  using res_send_plain [of 400 rq p chunk] by simp

lemma res_send_413:
  "res_send rq p chunk \<lparr>statusCode = JNum 413\<rparr> = Sent \<lparr>statusCode = JNum 413, body = chunk\<rparr>"
  using res_send_plain [of 413 rq p chunk] by simp

lemma res_send_415:
  "res_send rq p chunk \<lparr>statusCode = JNum 415\<rparr> = Sent \<lparr>statusCode = JNum 415, body = chunk\<rparr>"
  using res_send_plain [of 415 rq p chunk] by simp

lemma res_send_500:
  "res_send rq p chunk \<lparr>statusCode = JNum 500\<rparr> = Sent \<lparr>statusCode = JNum 500, body = chunk\<rparr>"
  using res_send_plain [of 500 rq p chunk] by simp

text \<open>Status 200 is written as it is, unless the request is conditional on the body.\<close>

lemma res_send_200:
  "res_send rq p chunk \<lparr>statusCode = JNum 200\<rparr> =
     Sent (if conditional rq chunk then not_modified else \<lparr>statusCode = JNum 200, body = chunk\<rparr>)"
proof -
  have i: "to_int32 (Some 200) = 200" "to_int32 (Some 304) = 304"
    using to_int32_of_int [of 200] to_int32_of_int [of 304] by simp_all
  have f: "req_fresh rq p \<lparr>statusCode = JNum 200\<rparr> chunk = conditional rq chunk"
    by (auto simp add: req_fresh_def conditional_def)
  show ?thesis
    by (simp add: res_send_def Let_def f i not_modified_def)
qed

lemma parser_status_sent:
  "res_send rq p chunk \<lparr>statusCode = JNum (status_code st)\<rparr> =
     Sent \<lparr>statusCode = JNum (status_code st), body = chunk\<rparr>"
  by (cases st) (simp_all add: res_send_400 res_send_413 res_send_415)

lemma res_status_res0: "res_status c res0 = \<lparr>statusCode = c\<rparr>"
  by (simp add: res_status_def res0_def)

lemma res_send_res0:
  "res_send rq p chunk res0 =
     Sent (if conditional rq chunk then not_modified else \<lparr>statusCode = JNum 200, body = chunk\<rparr>)"
  by (simp add: res0_def res_send_200)

lemma conditional_params: "conditional (rq\<lparr>params := ps\<rparr>) chunk = conditional rq chunk"
  by (simp add: conditional_def fresh_def)

lemmas send_simps =
  res_json_def res_status_res0 res_send_res0 res_send_404 res_send_400 res_send_500
  parser_status_sent conditional_params

section \<open>Evaluation and the router on a GET route\<close>

lemma char_of_bits:
  "char_of (n::nat) =
     Char (odd n) (odd (n div 2)) (odd (n div 4)) (odd (n div 8))
          (odd (n div 16)) (odd (n div 32)) (odd (n div 64)) (odd (n div 128))"
  by (simp add: char_of_def bit_iff_odd)

lemmas eval_defs =
  layer_match_def pathRegexp_def regexp_exec_def drop_trailing_slash_def seg_of_def
  toLowerCase_def toUpperCase_def lower_char_def upper_char_def decode_param_def
  decodeURIComponent_def hex_digit_def utf8_lead_def char_of_bits

lemma toLowerCase_HEAD: "toLowerCase ''HEAD'' = ''head''"
  by (simp add: eval_defs)

lemma get_or_head_GET: "get_or_head ''GET''"
  by (simp add: get_or_head_def eval_defs)


lemma handles_method_get: "handles_method (router_get pat h) m = get_or_head m"
  by (auto simp add: handles_method_def dispatch_method_def route_methods_def router_get_def
      get_or_head_def Let_def)

lemma route_options_get: "route_options (router_get pat h) = [''GET'', ''HEAD'']"
  by (simp add: route_options_def route_methods_def router_get_def eval_defs)

lemma route_dispatch_get:
  "get_or_head m \<Longrightarrow>
   route_dispatch (stack (router_get pat h)) (dispatch_method (router_get pat h) m) rq p r =
     (case h rq p r of Sent x \<Rightarrow> Sent x | CallNext \<Rightarrow> CallNext | Throw e \<Rightarrow> Throw e)"
  by (auto simp add: dispatch_method_def route_methods_def router_get_def get_or_head_def
      Let_def split: outcome.splits)

text \<open>One turn of the router's loop on a route made by \<open>router.get\<close>.\<close>

lemma router_next_get:
  "router_next (router_get pat h # rts) le opts rq p r =
     (case layer_match pat (path rq) of
        NoMatch \<Rightarrow> router_next rts le opts rq p r
      | MatchError e \<Rightarrow>
          router_next rts (Some (case le of None \<Rightarrow> e | Some e0 \<Rightarrow> e0)) opts rq p r
      | Matched ps \<Rightarrow>
          (if le \<noteq> None then router_next rts le opts rq p r
           else if get_or_head (method rq)
           then (case h (rq\<lparr>params := ps\<rparr>) p r of
                   Sent x \<Rightarrow> (Sent x, opts)
                 | CallNext \<Rightarrow> router_next rts None opts rq p r
                 | Throw e \<Rightarrow> router_next rts (Some e) opts rq p r)
           else router_next rts None
                  (if method rq = ''OPTIONS'' then appendMethods opts [''GET'', ''HEAD''] else opts)
                  rq p r))"
proof (cases "layer_match pat (path rq)")
  case NoMatch
  then show ?thesis by (simp add: router_get_def)
next
  case (MatchError e)
  then show ?thesis by (simp add: router_get_def)
next
  case (Matched ps)
  have rp: "route_path (router_get pat h) = pat" by (simp add: router_get_def)
  show ?thesis
  proof (cases "get_or_head (method rq)")
    case True
    then show ?thesis using Matched
      by (simp add: rp handles_method_get route_dispatch_get split: outcome.splits)
  next
    case False
    then have "method rq \<noteq> ''HEAD''"
      by (auto simp add: get_or_head_def toLowerCase_HEAD)
    then show ?thesis using Matched False
      by (simp add: rp handles_method_get route_options_get)
  qed
qed

text \<open>With an error pending no route runs, and the first error is the one kept.\<close>

lemma router_next_pending:
  "router_next rts (Some e) opts rq p r = (Throw e, opts)"
  by (induction rts) (simp_all split: match.splits)

section \<open>Paths and patterns\<close>

lemma match_segments_length:
  "match_segments segs ss = Some caps \<Longrightarrow> length ss = length segs"
  by (induction segs ss arbitrary: caps rule: match_segments.induct)
     (auto split: if_splits)

lemma layer_match_regexp:
  "layer_match pat pa \<noteq> NoMatch \<Longrightarrow> \<exists>caps. regexp_exec (pathRegexp pat) pa = Some caps"
  by (auto simp add: layer_match_def split: option.splits)

lemma regexp_exec_length:
  "regexp_exec segs pa = Some caps \<Longrightarrow> regexp_exec segs' pa = Some caps' \<Longrightarrow>
   length segs = length segs'"
  by (auto simp add: regexp_exec_def split: list.splits if_splits dest!: match_segments_length)

lemma pathRegexp_home: "pathRegexp ''/'' = []"
  by (simp add: eval_defs)

lemma pathRegexp_health: "pathRegexp ''/api/health'' = [Lit ''api'', Lit ''health'']"
  by (simp add: eval_defs)

lemma pathRegexp_users:
  "pathRegexp ''/api/users/:id'' = [Lit ''api'', Lit ''users'', Param ''id'']"
  by (simp add: eval_defs)

text \<open>A path that matches one of the three patterns matches no other.\<close>

lemma users_excludes_home:
  assumes "layer_match ''/api/users/:id'' pa \<noteq> NoMatch"
  shows "layer_match ''/'' pa = NoMatch"
proof (rule ccontr)
  assume "layer_match ''/'' pa \<noteq> NoMatch"
  from layer_match_regexp [OF this] layer_match_regexp [OF assms]
  show False by (auto simp add: pathRegexp_home pathRegexp_users dest: regexp_exec_length)
qed

lemma users_excludes_health:
  assumes "layer_match ''/api/users/:id'' pa \<noteq> NoMatch"
  shows "layer_match ''/api/health'' pa = NoMatch"
proof (rule ccontr)
  assume "layer_match ''/api/health'' pa \<noteq> NoMatch"
  from layer_match_regexp [OF this] layer_match_regexp [OF assms]
  show False by (auto simp add: pathRegexp_health pathRegexp_users dest: regexp_exec_length)
qed

text \<open>The only error a match can throw is the one of \<open>decode_param\<close>.\<close>

lemma decode_params_fault:
  "decode_params caps = Inl e \<Longrightarrow> status e = JNum 400 \<and> (\<exists>s. message e = JStr s)"
  by (induction caps arbitrary: e rule: decode_params.induct)
     (auto simp add: decode_param_def split: sum.splits option.splits if_splits)

lemma layer_match_fault:
  "layer_match pat pa = MatchError e \<Longrightarrow> status e = JNum 400 \<and> (\<exists>s. message e = JStr s)"
  by (auto simp add: layer_match_def split: option.splits sum.splits dest: decode_params_fault)

text \<open>The three matches of a request path, named.\<close>

lemma three_matches:
  obtains m1 m2 m3 where
    "layer_match ''/'' pa = m1" "layer_match ''/api/health'' pa = m2"
    "layer_match ''/api/users/:id'' pa = m3"
  by simp

lemma route_path_get: "route_path (router_get pat h) = pat"
  by (simp add: router_get_def)

lemma route_matches_get:
  "route_matches (router_get pat h) rq =
     (case layer_match pat (path rq) of Matched ps \<Rightarrow> get_or_head (method rq) | _ \<Rightarrow> False)"
  by (simp add: route_matches_def handles_method_get route_path_get split: match.splits)

lemma path_matches_get:
  "path_matches (router_get pat h) rq = (layer_match pat (path rq) \<noteq> NoMatch)"
  by (simp add: path_matches_def route_path_get)

lemma undecodable_get:
  "undecodable (router_get pat h) rq =
     (case layer_match pat (path rq) of MatchError e \<Rightarrow> True | _ \<Rightarrow> False)"
  by (simp add: undecodable_def route_path_get)

lemmas match_simps =
  matches_route_def matches_path_def undecodable_param_def
  route_matches_get path_matches_get undecodable_get


text \<open>A path matches at most one of the three patterns.\<close>

lemma health_excludes_home:
  assumes "layer_match ''/api/health'' pa \<noteq> NoMatch"
  shows "layer_match ''/'' pa = NoMatch"
proof (rule ccontr)
  assume "layer_match ''/'' pa \<noteq> NoMatch"
  from layer_match_regexp [OF this] layer_match_regexp [OF assms]
  show False by (auto simp add: pathRegexp_home pathRegexp_health dest: regexp_exec_length)
qed

lemma one_pattern:
  "layer_match ''/'' pa = NoMatch \<and> layer_match ''/api/health'' pa = NoMatch \<or>
   layer_match ''/'' pa = NoMatch \<and> layer_match ''/api/users/:id'' pa = NoMatch \<or>
   layer_match ''/api/health'' pa = NoMatch \<and> layer_match ''/api/users/:id'' pa = NoMatch"
  using users_excludes_home [of pa] users_excludes_health [of pa] health_excludes_home [of pa]
  by blast

section \<open>The chain of app.js\<close>

text \<open>The error handler on the faults the application can meet, and on a falsy status.\<close>

lemma error_handler_400:
  "status f = JNum 400 \<Longrightarrow>
   error_handler f rq p res0 =
     Sent \<lparr>statusCode = JNum 400,
           body = Json (JObj [(''error'', JObj [(''message'', message f)])])\<rparr>"
  by (simp add: error_handler_def js_or_def send_simps)

lemma error_handler_parser:
  "error_handler (parser_fault e) rq p res0 =
     Sent \<lparr>statusCode = JNum (status_code (fst e)),
           body = Json (JObj [(''error'', JObj [(''message'', JStr (snd e))])])\<rparr>"
proof -
  have "truthy (JNum (status_code (fst e)))" by (cases "fst e") simp_all
  then show ?thesis
    by (simp add: error_handler_def js_or_def parser_fault_def send_simps)
qed

lemma error_handler_falsy:
  "\<not> truthy (status f) \<Longrightarrow>
   error_handler f rq p res0 =
     Sent \<lparr>statusCode = JNum 500,
           body = Json (JObj [(''error'', JObj [(''message'', message f)])])\<rparr>"
  by (simp add: error_handler_def js_or_def send_simps)

lemma error_handler_never_next: "error_handler f rq p r \<noteq> CallNext"
  by (simp add: error_handler_def res_json_def res_send_def Let_def)

lemma not_found_handler_sent: "not_found_handler rq p res0 = Sent not_found"
  by (simp add: not_found_handler_def not_found_def send_simps)

text \<open>
  The chain, seen from the error that is pending at the error handler: the handler
  answers it, or throws itself, and then no layer of \<open>app.js\<close> is left to catch that.
\<close>

lemma express_app_cases:
  "express_app router p rq =
     (case pending_fault router p rq of
        Some f \<Rightarrow>
          (case error_handler f rq p res0 of
             Sent x \<Rightarrow> Responded x
           | CallNext \<Rightarrow> Responded not_found
           | Throw e \<Rightarrow> Finalhandler (Some e))
      | None \<Rightarrow>
          (case router_handle router rq p res0 of
             Sent x \<Rightarrow> Responded x
           | CallNext \<Rightarrow> Responded not_found
           | Throw e \<Rightarrow> Responded not_found))"
  by (simp add: express_app_def express_json_def express_urlencoded_def express_static_def
      pending_fault_def rejection_def not_found_handler_sent
      split: option.splits outcome.splits)

lemma router_fault_pending:
  "accepted rq \<Longrightarrow> router_handle router rq p res0 = Throw f \<Longrightarrow>
   pending_fault router p rq = Some f"
  by (simp add: pending_fault_def accepted_def)

lemma route_throws:
  assumes "layer_match pat (path rq) = Matched ps"
    and "get_or_head (method rq)"
    and "h (rq\<lparr>params := ps\<rparr>) p r = Throw f"
  shows "router_handle (router_get pat h # rts) rq p r = Throw f"
  using assms by (simp add: router_handle_def router_next_get router_next_pending
      del: router_next.simps(2))

text \<open>The router's own answer to OPTIONS is never conditional.\<close>

lemma router_handle_options:
  "router_handle rts rq p res0 =
     (case router_next rts None [] rq p res0 of
        (Sent x, options) \<Rightarrow> Sent x
      | (Throw e, options) \<Rightarrow> Throw e
      | (CallNext, options) \<Rightarrow>
          if method rq = ''OPTIONS'' \<and> options \<noteq> []
          then Sent \<lparr>statusCode = JNum 200, body = Text (join_comma options)\<rparr>
          else CallNext)"
proof -
  obtain out opts where n: "router_next rts None [] rq p res0 = (out, opts)"
    by (cases "router_next rts None [] rq p res0")
  have "method rq = ''OPTIONS'' \<Longrightarrow> \<not> conditional rq chunk" for chunk
    by (simp add: conditional_def)
  then show ?thesis
    by (cases out) (auto simp add: router_handle_def n sendOptionsResponse_def send_simps)
qed

lemmas handler_defs =
  home_handler_def health_handler_def user_handler_def param_def send_simps

lemmas app_simps =
  app_def express_app_cases pending_fault_def router_handle_options routes_def
  router_next_get handler_defs

section \<open>The user route\<close>

text \<open>
  A GET or HEAD request whose body is accepted and whose path matches
  \<open>/api/users/:id\<close> reaches the third route: the first two patterns do not match its
  path. The handler compares the decoded parameter with the string \<open>123\<close>.
\<close>

lemma user_route:
  assumes "accepted rq"
    and "get_or_head (method rq)"
    and "layer_match ''/api/users/:id'' (path rq) = Matched [(''id'', uid)]"
  shows "app p rq =
     Responded
       (if uid = ''123''
        then (if conditional rq (body user_record) then not_modified else user_record)
        else user_not_found)"
proof -
  from assms(3) have u: "layer_match ''/api/users/:id'' (path rq) \<noteq> NoMatch" by simp
  from assms(1) have r: "rejection rq = None" by (simp add: accepted_def)
  show ?thesis
    using assms(2,3) r users_excludes_home [OF u] users_excludes_health [OF u]
    by (simp add: app_simps user_record_def user_not_found_def del: router_next.simps(2))
qed

text \<open>
  An id without a slash and without a percent sign is captured as it is written, so the
  route answers every such \<open>GET /api/users/<id>\<close>.
\<close>

lemma split_slash_plain: "CHR ''/'' \<notin> set s \<Longrightarrow> split_slash s = [s]"
  by (induction s) auto

lemma pieces_plain: "CHR ''%'' \<notin> set s \<Longrightarrow> pieces s = Some (map Raw s)"
  by (induction s) auto

lemma utf8_raw: "utf8 [] (map Raw s) = Some s"
  by (induction s) auto

lemma decode_param_plain: "CHR ''%'' \<notin> set s \<Longrightarrow> decode_param s = Inr s"
  by (simp add: decode_param_def decodeURIComponent_def pieces_plain utf8_raw)

lemma plain_id_captured:
  assumes "uid \<noteq> []" and "CHR ''/'' \<notin> set uid" and "CHR ''%'' \<notin> set uid"
  shows "layer_match ''/api/users/:id'' (''/api/users/'' @ uid) = Matched [(''id'', uid)]"
  using assms
  by (simp add: layer_match_def pathRegexp_users regexp_exec_def split_slash_plain
      drop_trailing_slash_def toLowerCase_def decode_param_plain)

lemmas plain_simps = plain_def accepted_def rejection_def conditional_def fresh_def

lemma plain_id_lookup:
  assumes "uid \<noteq> []" and "CHR ''/'' \<notin> set uid" and "CHR ''%'' \<notin> set uid"
  shows "app p (plain ''GET'' (''/api/users/'' @ uid)) =
     Responded (if uid = ''123'' then user_record else user_not_found)"
  using user_route [of "plain ''GET'' (''/api/users/'' @ uid)" uid p]
    plain_id_captured [OF assms]
  by (simp add: get_or_head_GET plain_simps)

text \<open>
  Claim C3, as the code has it. A GET request on \<open>/api/users/<id>\<close> whose body the
  parsers accept and whose id decodes to the string \<open>123\<close> is answered with status 200
  and exactly the record \<open>{id: "123", name: "John Doe", email: "john@example.com"}\<close>,
  whatever the state of the process, unless its cache headers make the client's copy
  of that record fresh: then the answer is 304 without a body.
\<close>

theorem user_123:
  assumes "method rq = ''GET''"
    and "accepted rq"
    and "layer_match ''/api/users/:id'' (path rq) = Matched [(''id'', ''123'')]"
  shows "app p rq =
     Responded
       (if fresh rq (Json (JObj [(''id'', JStr ''123''),
                                 (''name'', JStr ''John Doe''),
                                 (''email'', JStr ''john@example.com'')]))
        then \<lparr>statusCode = JNum 304, body = Empty\<rparr>
        else \<lparr>statusCode = JNum 200,
              body = Json (JObj [(''id'', JStr ''123''),
                                 (''name'', JStr ''John Doe''),
                                 (''email'', JStr ''john@example.com'')])\<rparr>)"
  using user_route [of rq "''123''" p] assms
  by (simp add: get_or_head_GET user_record_def not_modified_def conditional_def)

theorem user_123_witness:
  "app (clocks 1500000000 1700000000000) (plain ''GET'' ''/api/users/123'') =
     Responded \<lparr>statusCode = JNum 200,
                body = Json (JObj [(''id'', JStr ''123''),
                                   (''name'', JStr ''John Doe''),
                                   (''email'', JStr ''john@example.com'')])\<rparr>"
  using user_123 [of "plain ''GET'' ''/api/users/123''" "clocks 1500000000 1700000000000"]
  by (simp add: plain_simps eval_defs)

text \<open>
  The request \<open>GET /api/users/123\<close> with the header \<open>If-None-Match: *\<close> is answered with
  status 304 and no body.
\<close>

theorem conditional_user_counterexample:
  "app (clocks 1500000000 1700000000000)
       ((plain ''GET'' ''/api/users/123'')\<lparr>if_none_match := Star\<rparr>) =
     Responded \<lparr>statusCode = JNum 304, body = Empty\<rparr>"
  by (simp add: app_simps plain_simps get_or_head_GET eval_defs not_modified_def
      del: router_next.simps(2))

text \<open>
  Claim C4, as the code has it. A GET request on \<open>/api/users/<id>\<close> whose body the
  parsers accept and whose id decodes to a string other than \<open>123\<close> is answered with
  status 404 and exactly \<open>{error: {message: "User not found"}}\<close>. The comparison is
  equality of strings, on the percent-decoded id: the witness is the id \<open>0123\<close>, which a
  numeric comparison would have taken for 123.
\<close>

theorem user_other:
  assumes "method rq = ''GET''"
    and "accepted rq"
    and "layer_match ''/api/users/:id'' (path rq) = Matched [(''id'', uid)]"
    and "uid \<noteq> ''123''"
  shows "app p rq =
     Responded \<lparr>statusCode = JNum 404,
                body = Json (JObj [(''error'', JObj [(''message'', JStr ''User not found'')])])\<rparr>"
  using user_route [of rq uid p] assms
  by (simp add: get_or_head_GET user_not_found_def)

theorem user_other_witness:
  "app (clocks 1500000000 1700000000000) (plain ''GET'' ''/api/users/0123'') =
     Responded \<lparr>statusCode = JNum 404,
                body = Json (JObj [(''error'', JObj [(''message'', JStr ''User not found'')])])\<rparr>"
  using user_other [of "plain ''GET'' ''/api/users/0123''" "''0123''"
      "clocks 1500000000 1700000000000"]
  by (simp add: plain_simps eval_defs)

text \<open>
  The request \<open>GET /api/users/%31%32%33\<close>: the segment the pattern captures is
  \<open>%31%32%33\<close>, which is not the string \<open>123\<close>, and the answer is status 200 with the
  record, because the router decodes the segment before the handler compares it.
\<close>

theorem encoded_id_counterexample:
  "regexp_exec (pathRegexp ''/api/users/:id'') ''/api/users/%31%32%33'' =
     Some [(''id'', ''%31%32%33'')] \<and>
   app (clocks 1500000000 1700000000000) (plain ''GET'' ''/api/users/%31%32%33'') =
     Responded \<lparr>statusCode = JNum 200,
                body = Json (JObj [(''id'', JStr ''123''),
                                   (''name'', JStr ''John Doe''),
                                   (''email'', JStr ''john@example.com'')])\<rparr>"
  by (simp add: app_simps plain_simps get_or_head_GET eval_defs del: router_next.simps(2))

section \<open>The not-found fallback\<close>




section \<open>Shapes and statuses of the responses\<close>



text \<open>The route handlers of \<open>routes/index.js\<close> never throw.\<close>

lemma handlers_never_throw:
  "home_handler rq p res0 \<noteq> Throw e \<and> health_handler rq p res0 \<noteq> Throw e \<and>
   user_handler rq p res0 \<noteq> Throw e"
  by (simp add: handler_defs)




text \<open>Every request is answered by the chain itself, with one of six statuses.\<close>

lemma app_statuses:
  "\<exists>x. app p rq = Responded x \<and>
        (case rejection rq of
           Some e \<Rightarrow> statusCode x = JNum (status_code (fst e))
         | None \<Rightarrow>
             if undecodable_param rq then statusCode x = JNum 400
             else statusCode x = JNum 200 \<or> statusCode x = JNum 304 \<or> statusCode x = JNum 404)"
proof (cases "rejection rq")
  case (Some e)
  then show ?thesis
    by (simp add: app_def express_app_cases pending_fault_def error_handler_parser)
next
  case None
  obtain m1 m2 m3 where
    m: "layer_match ''/'' (path rq) = m1" "layer_match ''/api/health'' (path rq) = m2"
       "layer_match ''/api/users/:id'' (path rq) = m3"
    by (rule three_matches)
  have f: "\<And>e. m1 = MatchError e \<Longrightarrow> status e = JNum 400"
          "\<And>e. m2 = MatchError e \<Longrightarrow> status e = JNum 400"
          "\<And>e. m3 = MatchError e \<Longrightarrow> status e = JNum 400"
    using m layer_match_fault by blast+
  show ?thesis
    using None one_pattern [of "path rq"]
    by (cases m1; cases m2; cases m3)
       (simp_all add: app_simps match_simps m f not_found_def not_modified_def
          router_next_pending error_handler_400 del: router_next.simps(2))
qed

text \<open>
  Claim C9, as the code has it. None of the three route handlers can throw. The error
  handler is reached all the same: by the error of a body parser that rejects the body
  (status 400, 413 or 415), and by the error that the router throws when the \<open>:id\<close>
  segment cannot be decoded (status 400). A rejected request is answered with the
  status of the parser's error; otherwise the status is exactly 400 when the parameter
  is undecodable, and exactly 200, 304 (a conditional request whose copy is fresh) or
  404 when it is not. No request yields a 500.
\<close>

theorem response_statuses:
  "(\<forall>rq p e. home_handler rq p res0 \<noteq> Throw e \<and> health_handler rq p res0 \<noteq> Throw e \<and>
       user_handler rq p res0 \<noteq> Throw e) \<and>
   (\<exists>x. app p rq = Responded x \<and>
        (case rejection rq of
           Some e \<Rightarrow> statusCode x = JNum (status_code (fst e))
         | None \<Rightarrow>
             if undecodable_param rq then statusCode x = JNum 400
             else statusCode x = JNum 200 \<or> statusCode x = JNum 304 \<or> statusCode x = JNum 404)) \<and>
   (\<forall>st. status_code st \<noteq> 500)"
proof -
  have "\<forall>st. status_code st \<noteq> 500"
  proof
    fix st show "status_code st \<noteq> 500" by (cases st) simp_all
  qed
  with app_statuses [of p rq] handlers_never_throw show ?thesis by blast
qed

theorem response_statuses_witness:
  "\<exists>x. app (clocks 1500000000 1700000000000) (plain ''POST'' ''/api/users/%zz'') = Responded x \<and>
        statusCode x = JNum 400"
  using response_statuses [of "clocks 1500000000 1700000000000" "plain ''POST'' ''/api/users/%zz''"]
  by (simp add: match_simps routes_def plain_simps eval_defs)

text \<open>
  The request \<open>GET /api/users/%\<close>: the segment \<open>%\<close> is not a percent-encoding, the
  router throws \<open>Failed to decode param '%'\<close> with status 400, and the error handler of
  \<open>app.js\<close> answers with that status.
\<close>

theorem undecodable_id_counterexample:
  "app (clocks 1500000000 1700000000000) (plain ''GET'' ''/api/users/%'') =
     Responded
       \<lparr>statusCode = JNum 400,
        body = Json (JObj [(''error'',
                 JObj [(''message'',
                   JStr (''Failed to decode param '' @ [CHR 0x27, CHR ''%'', CHR 0x27]))])])\<rparr>"
  by (simp add: app_simps plain_simps get_or_head_def eval_defs router_next_pending
      error_handler_400 del: router_next.simps(2))

section \<open>The clocks\<close>



lemma health_response:
  assumes "method rq = ''GET''" and "path rq = ''/api/health''" and "accepted rq"
  shows "app p rq =
     Responded
       (if conditional rq (Json (JObj [(''status'', JStr ''ok''),
                                 (''timestamp'', JDate (wallclock p)),
                                 (''uptime'', JNum (process_uptime p))]))
        then not_modified
        else \<lparr>statusCode = JNum 200,
              body = Json (JObj [(''status'', JStr ''ok''),
                                 (''timestamp'', JDate (wallclock p)),
                                 (''uptime'', JNum (process_uptime p))])\<rparr>)"
proof -
  have "layer_match ''/'' ''/api/health'' = NoMatch"
    and "layer_match ''/api/health'' ''/api/health'' = Matched []"
    by (simp_all add: eval_defs)
  moreover from assms(3) have "rejection rq = None" by (simp add: accepted_def)
  ultimately show ?thesis
    using assms(1,2)
    by (simp add: app_simps get_or_head_GET del: router_next.simps(2))
qed









text \<open>
  Claim C7, as the code has it. Two executions on the same request, in any two states
  of the process, give the same response when the path is not the health endpoint's;
  on the health endpoint they give the same response once the \<open>timestamp\<close> and \<open>uptime\<close>
  properties are left out, provided the request does not carry a list of entity tags
  in \<open>If-None-Match\<close>. This holds for every method, GET among them.
\<close>

theorem deterministic:
  "(layer_match ''/api/health'' (path rq) = NoMatch \<longrightarrow> app p rq = app p' rq) \<and>
   (\<not> has_tags rq \<longrightarrow> erase_clock (app p rq) = erase_clock (app p' rq))"
proof (cases "rejection rq")
  case (Some e)
  then show ?thesis
    by (simp add: app_def express_app_cases pending_fault_def error_handler_parser)
next
  case None
  obtain m1 m2 m3 where
    m: "layer_match ''/'' (path rq) = m1" "layer_match ''/api/health'' (path rq) = m2"
       "layer_match ''/api/users/:id'' (path rq) = m3"
    by (rule three_matches)
  have f: "\<And>e. m1 = MatchError e \<Longrightarrow> status e = JNum 400"
          "\<And>e. m2 = MatchError e \<Longrightarrow> status e = JNum 400"
          "\<And>e. m3 = MatchError e \<Longrightarrow> status e = JNum 400"
    using m layer_match_fault by blast+
  have off: "m2 = NoMatch \<Longrightarrow> app p rq = app p' rq"
    using None
    by (cases m1; cases m3)
       (simp_all add: app_simps m f not_found_def router_next_pending error_handler_400
          del: router_next.simps(2))
  have on: "erase_clock (app p rq) = erase_clock (app p' rq)" if "\<not> has_tags rq"
  proof -
    from that have "\<exists>b. \<forall>chunk. conditional rq chunk = b"
      by (cases "if_none_match rq") (auto simp add: conditional_def fresh_def has_tags_def)
    then obtain b where b: "\<And>chunk. conditional rq chunk = b" by blast
    show ?thesis
      using None
      by (cases m1; cases m2; cases m3)
         (simp_all add: app_simps m f b not_found_def not_modified_def router_next_pending
            error_handler_400 del: router_next.simps(2))
  qed
  from off on m show ?thesis by simp
qed

theorem deterministic_witness:
  "erase_clock (app (clocks 1500000000 1700000000000) (plain ''GET'' ''/api/health'')) =
   erase_clock (app (clocks 99000000000 1700000100000) (plain ''GET'' ''/api/health'')) \<and>
   app (clocks 1500000000 1700000000000) (plain ''GET'' ''/api/users/999'') =
   app (clocks 99000000000 1700000100000) (plain ''GET'' ''/api/users/999'')"
proof -
  have "layer_match ''/api/health'' ''/api/users/999'' = NoMatch"
    by (simp add: eval_defs)
  then show ?thesis
    using
      deterministic [of "plain ''GET'' ''/api/health''" "clocks 1500000000 1700000000000"
        "clocks 99000000000 1700000100000"]
      deterministic [of "plain ''GET'' ''/api/users/999''" "clocks 1500000000 1700000000000"
        "clocks 99000000000 1700000100000"]
    by (simp add: plain_def has_tags_def)
qed

text \<open>
  The call \<open>GET /api/health\<close> with an \<open>If-None-Match\<close> header that names the body the
  endpoint has when the clocks read 1.5 seconds and 1700000000000: at that instant the
  answer is 304 without a body, at another it is 200 with the body.
\<close>

theorem tagged_health_counterexample:
  "app (clocks 1500000000 1700000000000)
       ((plain ''GET'' ''/api/health'')
          \<lparr>if_none_match :=
             Tags [Json (JObj [(''status'', JStr ''ok''),
                               (''timestamp'', JDate 1700000000000),
                               (''uptime'', JNum (3 / 2))])]\<rparr>) =
     Responded \<lparr>statusCode = JNum 304, body = Empty\<rparr> \<and>
   app (clocks 99000000000 1700000100000)
       ((plain ''GET'' ''/api/health'')
          \<lparr>if_none_match :=
             Tags [Json (JObj [(''status'', JStr ''ok''),
                               (''timestamp'', JDate 1700000000000),
                               (''uptime'', JNum (3 / 2))])]\<rparr>) =
     Responded \<lparr>statusCode = JNum 200,
                body = Json (JObj [(''status'', JStr ''ok''),
                                   (''timestamp'', JDate 1700000100000),
                                   (''uptime'', JNum 99)])\<rparr>"
  using
    health_response [of "(plain ''GET'' ''/api/health'')
          \<lparr>if_none_match :=
             Tags [Json (JObj [(''status'', JStr ''ok''),
                               (''timestamp'', JDate 1700000000000),
                               (''uptime'', JNum (3 / 2))])]\<rparr>"
      "clocks 1500000000 1700000000000"]
    health_response [of "(plain ''GET'' ''/api/health'')
          \<lparr>if_none_match :=
             Tags [Json (JObj [(''status'', JStr ''ok''),
                               (''timestamp'', JDate 1700000000000),
                               (''uptime'', JNum (3 / 2))])]\<rparr>"
      "clocks 99000000000 1700000100000"]
  by (simp add: plain_simps clocks_def process_uptime_def not_modified_def)

section \<open>The error handler\<close>





text \<open>A router whose only route throws, on a request for that route.\<close>

lemma boom_pending:
  "pending_fault [router_get ''/boom'' (throwing f)] p (plain ''GET'' ''/boom'') = Some f"
proof -
  have "layer_match ''/boom'' (path (plain ''GET'' ''/boom'')) = Matched []"
    by (simp add: plain_def eval_defs)
  moreover have "get_or_head (method (plain ''GET'' ''/boom''))"
    by (simp add: plain_def get_or_head_GET)
  moreover have "throwing f ((plain ''GET'' ''/boom'')\<lparr>params := []\<rparr>) p res0 = Throw f"
    by (simp add: throwing_def)
  ultimately have "router_handle (router_get ''/boom'' (throwing f) # []) (plain ''GET'' ''/boom'')
      p res0 = Throw f"
    by (rule route_throws)
  moreover have "accepted (plain ''GET'' ''/boom'')"
    by (simp add: plain_simps)
  ultimately show ?thesis
    by (simp add: router_fault_pending)
qed





text \<open>
  Claim C10. When the fault that reaches the error handler declares a falsy status
  (\<open>0\<close>, \<open>null\<close>, \<open>undefined\<close>, \<open>NaN\<close>, \<open>false\<close> or the empty string), the response has
  status 500: \<open>err.status || 500\<close> tests the value, not its presence.
\<close>

theorem falsy_status_500:
  assumes "pending_fault router p rq = Some f"
    and "\<not> truthy (status f)"
  shows "express_app router p rq =
     Responded
       \<lparr>statusCode = JNum 500,
        body = Json (JObj [(''error'', JObj [(''message'', message f)])])\<rparr>"
  using assms by (simp add: express_app_cases error_handler_falsy)

theorem falsy_status_500_witness:
  "express_app [router_get ''/boom'' (throwing \<lparr>status = JNull, message = JStr ''boom''\<rparr>)]
     (clocks 1500000000 1700000000000) (plain ''GET'' ''/boom'') =
   Responded
     \<lparr>statusCode = JNum 500,
      body = Json (JObj [(''error'', JObj [(''message'', JStr ''boom'')])])\<rparr>"
  using falsy_status_500 [OF boom_pending,
      of "\<lparr>status = JNull, message = JStr ''boom''\<rparr>" "clocks 1500000000 1700000000000"]
  by simp




end
